theory Spec2Isabelle
  imports Main "HOL-Library.Multiset"
begin

section \<open>Cards and the deck (server/game/cards.ts)\<close>

text \<open>
  A JavaScript string is a sequence of UTF-16 code units; \<open>str[0]\<close> and \<open>slice\<close>
  count code units.  The suit glyphs U+2660, U+2665, U+2663 and U+2666 are one unit each,
  the joker glyph U+1F0CF is a surrogate pair, the two joker rank names are two units each.
\<close>

type_synonym jsstring = "nat list"

datatype Suit = SPADE | HEART | CLUB | DIAMOND | JOKER

datatype Rank = THREE | FOUR | FIVE | SIX | SEVEN | EIGHT | NINE | TEN | JACK | QUEEN
  | KING | ACE | TWO | SMALL_JOKER | BIG_JOKER

fun suit_str :: "Suit \<Rightarrow> jsstring" where
  "suit_str SPADE = [0x2660]"
| "suit_str HEART = [0x2665]"
| "suit_str CLUB = [0x2663]"
| "suit_str DIAMOND = [0x2666]"
| "suit_str JOKER = [0xD83C, 0xDCCF]"

fun rank_str :: "Rank \<Rightarrow> jsstring" where
  "rank_str THREE = [0x33]"
| "rank_str FOUR = [0x34]"
| "rank_str FIVE = [0x35]"
| "rank_str SIX = [0x36]"
| "rank_str SEVEN = [0x37]"
| "rank_str EIGHT = [0x38]"
| "rank_str NINE = [0x39]"
| "rank_str TEN = [0x31, 0x30]"
| "rank_str JACK = [0x4A]"
| "rank_str QUEEN = [0x51]"
| "rank_str KING = [0x4B]"
| "rank_str ACE = [0x41]"
| "rank_str TWO = [0x32]"
| "rank_str SMALL_JOKER = [0x5C0F, 0x738B]"
| "rank_str BIG_JOKER = [0x5927, 0x738B]"

text \<open>The interface \<open>Card\<close>; its numeric field \<open>value\<close> is \<open>cvalue\<close> here.\<close>

record Card =
  suit :: Suit
  rank :: Rank
  cvalue :: int

fun RANK_VALUES :: "Rank \<Rightarrow> int" where
  "RANK_VALUES THREE = 3"
| "RANK_VALUES FOUR = 4"
| "RANK_VALUES FIVE = 5"
| "RANK_VALUES SIX = 6"
| "RANK_VALUES SEVEN = 7"
| "RANK_VALUES EIGHT = 8"
| "RANK_VALUES NINE = 9"
| "RANK_VALUES TEN = 10"
| "RANK_VALUES JACK = 11"
| "RANK_VALUES QUEEN = 12"
| "RANK_VALUES KING = 13"
| "RANK_VALUES ACE = 14"
| "RANK_VALUES TWO = 15"
| "RANK_VALUES SMALL_JOKER = 16"
| "RANK_VALUES BIG_JOKER = 17"

definition mkCard :: "Suit \<Rightarrow> Rank \<Rightarrow> Card" where
  "mkCard s r = \<lparr>suit = s, rank = r, cvalue = RANK_VALUES r\<rparr>"

definition deck_suits :: "Suit list" where
  "deck_suits = [SPADE, HEART, CLUB, DIAMOND]"

definition deck_ranks :: "Rank list" where
  "deck_ranks = [THREE, FOUR, FIVE, SIX, SEVEN, EIGHT, NINE, TEN, JACK, QUEEN, KING, ACE, TWO]"

text \<open>\<open>createDeck\<close>: the nested loop pushes suit by suit, rank by rank, then the two jokers.\<close>

definition createDeck :: "Card list" where
  "createDeck =
     concat (map (\<lambda>s. map (\<lambda>r. mkCard s r) deck_ranks) deck_suits)
     @ [mkCard JOKER SMALL_JOKER] @ [mkCard JOKER BIG_JOKER]"

text \<open>
  \<open>shuffleDeck\<close>: Fisher-Yates from the last index down to 1.  The draw
  \<open>Math.floor(Math.random() * (i + 1))\<close> is some integer in \<open>0..i\<close>; the model takes the
  draws as a function \<open>rnd\<close> of the loop index and reduces each modulo \<open>i + 1\<close>, so that
  every supply of draws is in range.
\<close>

definition swap :: "nat \<Rightarrow> nat \<Rightarrow> 'a list \<Rightarrow> 'a list" where
  "swap i j xs = xs[i := xs ! j, j := xs ! i]"

fun shuffleLoop :: "(nat \<Rightarrow> nat) \<Rightarrow> nat \<Rightarrow> Card list \<Rightarrow> Card list" where
  "shuffleLoop rnd 0 shuffled = shuffled"
| "shuffleLoop rnd (Suc i) shuffled =
     (let j = rnd (Suc i) mod (Suc i + 1)
      in shuffleLoop rnd i (swap (Suc i) j shuffled))"

definition shuffleDeck :: "(nat \<Rightarrow> nat) \<Rightarrow> Card list \<Rightarrow> Card list" where
  "shuffleDeck rnd deck = shuffleLoop rnd (length deck - 1) deck"

text \<open>
  \<open>sortCards\<close>: a copy sorted with the comparator \<open>a.value - b.value\<close>.
  \<open>Array.prototype.sort\<close> is stable, as is \<open>sort_key\<close>.
\<close>

definition sortCards :: "Card list \<Rightarrow> Card list" where
  "sortCards cards = sort_key cvalue cards"

definition slice :: "nat \<Rightarrow> nat \<Rightarrow> 'a list \<Rightarrow> 'a list" where
  "slice a b xs = take (b - a) (drop a xs)"

record Hands =
  player0 :: "Card list"
  player1 :: "Card list"
  player2 :: "Card list"

text \<open>The object returned by \<open>dealCards\<close>: three hands and \<open>landlordCards\<close>.\<close>

record Dealt = Hands +
  dealtLandlordCards :: "Card list"

definition dealCards :: "(nat \<Rightarrow> nat) \<Rightarrow> Dealt" where
  "dealCards rnd =
     (let deck = shuffleDeck rnd createDeck
      in \<lparr>player0 = sortCards (slice 0 17 deck),
          player1 = sortCards (slice 17 34 deck),
          player2 = sortCards (slice 34 51 deck),
          dealtLandlordCards = sortCards (slice 51 54 deck)\<rparr>)"

definition cardToString :: "Card \<Rightarrow> jsstring" where
  "cardToString c =
     (if rank c = SMALL_JOKER \<or> rank c = BIG_JOKER then rank_str (rank c)
      else suit_str (suit c) @ rank_str (rank c))"

definition cardsToStrings :: "Card list \<Rightarrow> jsstring list" where
  "cardsToStrings cards = map cardToString cards"

definition all_suits :: "Suit list" where
  "all_suits = [SPADE, HEART, CLUB, DIAMOND, JOKER]"

definition all_ranks :: "Rank list" where
  "all_ranks = [THREE, FOUR, FIVE, SIX, SEVEN, EIGHT, NINE, TEN, JACK, QUEEN, KING, ACE, TWO,
     SMALL_JOKER, BIG_JOKER]"

text \<open>
  \<open>stringToCard\<close>: the two joker names first; otherwise the first code unit is looked up
  among \<open>Object.values(Suit)\<close> and the rest among \<open>Object.values(Rank)\<close>.  \<open>str[0]\<close> of
  the empty string is \<open>undefined\<close>, which equals no suit.
\<close>

definition stringToCard :: "jsstring \<Rightarrow> Card option" where
  "stringToCard str =
     (if str = rank_str SMALL_JOKER then Some (mkCard JOKER SMALL_JOKER)
      else if str = rank_str BIG_JOKER then Some (mkCard JOKER BIG_JOKER)
      else
        let suitChar = take 1 str;
            rankStr = drop 1 str;
            suit' = (if str = [] then None else find (\<lambda>s. suit_str s = suitChar) all_suits);
            rank' = find (\<lambda>r. rank_str r = rankStr) all_ranks
        in case suit' of
             None \<Rightarrow> None
           | Some s \<Rightarrow> (case rank' of None \<Rightarrow> None | Some r \<Rightarrow> Some (mkCard s r)))"

text \<open>\<open>stringsToCards\<close>: the loop pushes every non-null parse onto the result.\<close>

definition stringsToCards :: "jsstring list \<Rightarrow> Card list" where
  "stringsToCards strings =
     foldl (\<lambda>cards str. case stringToCard str of None \<Rightarrow> cards | Some c \<Rightarrow> cards @ [c])
       [] strings"

text \<open>
  \<open>countCards\<close>: a \<open>Map\<close> from value to count.  A \<open>Map\<close> keeps its keys in insertion
  order and \<open>set\<close> on an existing key keeps the key's place: an association list
  updated in place, extended at the end.
\<close>

fun mapSet :: "'k \<Rightarrow> 'v \<Rightarrow> ('k \<times> 'v) list \<Rightarrow> ('k \<times> 'v) list" where
  "mapSet k v [] = [(k, v)]"
| "mapSet k v (p # m) = (if fst p = k then (k, v) # m else p # mapSet k v m)"

definition getOr0 :: "('k \<times> nat) list \<Rightarrow> 'k \<Rightarrow> nat" where
  "getOr0 m k = (case map_of m k of None \<Rightarrow> 0 | Some n \<Rightarrow> n)"

definition countCards :: "Card list \<Rightarrow> (int \<times> nat) list" where
  "countCards cards =
     foldl (\<lambda>counts c. mapSet (cvalue c) (getOr0 counts (cvalue c) + 1) counts) [] cards"

definition cardId :: "Card \<Rightarrow> jsstring" where
  "cardId c = suit_str (suit c) @ [0x2D] @ rank_str (rank c)"

definition countIds :: "jsstring list \<Rightarrow> (jsstring \<times> nat) list" where
  "countIds ids = foldl (\<lambda>counts i. mapSet i (getOr0 counts i + 1) counts) [] ids"

definition hasCards :: "Card list \<Rightarrow> Card list \<Rightarrow> bool" where
  "hasCards hand cards =
     (let handCounts = countIds (map cardId hand);
          cardCounts = countIds (map cardId cards)
      in list_all (\<lambda>(cid, needCount). \<not> getOr0 handCounts cid < needCount) cardCounts)"

text \<open>
  \<open>removeCards\<close>: for every id, the inner loop walks the copy from the last index down
  and splices out matching cards until \<open>count\<close> (here \<open>cnt\<close>) of them are gone.  The loop counter of the
  model is \<open>i + 1\<close>.
\<close>

fun removeLoop :: "jsstring \<Rightarrow> nat \<Rightarrow> nat \<Rightarrow> nat \<Rightarrow> Card list \<Rightarrow> Card list" where
  "removeLoop cid cnt 0 removed result = result"
| "removeLoop cid cnt (Suc i) removed result =
     (if removed < cnt then
        (if cardId (result ! i) = cid
         then removeLoop cid cnt i (Suc removed) (take i result @ drop (Suc i) result)
         else removeLoop cid cnt i removed result)
      else result)"

definition removeCards :: "Card list \<Rightarrow> Card list \<Rightarrow> Card list" where
  "removeCards hand cards =
     foldl (\<lambda>result (cid, cnt). removeLoop cid cnt (length result) 0 result)
       hand (countIds (map cardId cards))"

section \<open>Pattern recognition and comparison (server/game/cardTypes.ts)\<close>

datatype CardType = INVALID | SINGLE | PAIR | TRIO | TRIO_SINGLE | TRIO_PAIR | STRAIGHT
  | PAIR_STRAIGHT | TRIO_STRAIGHT | TRIO_STRAIGHT_SINGLE | TRIO_STRAIGHT_PAIR
  | FOUR_DUAL_SINGLE | FOUR_DUAL_PAIR | BOMB | ROCKET

text \<open>The interface \<open>CardPattern\<close> with its fields \<open>type\<close>, \<open>value\<close>, \<open>length\<close>, \<open>cards\<close>.\<close>

record CardPattern =
  ptype :: CardType
  pvalue :: int
  plength :: nat
  pcards :: "Card list"

type_synonym counts = "(int \<times> nat) list"

text \<open>\<open>counts.get(v)\<close>, with \<open>None\<close> for \<open>undefined\<close>.\<close>

definition mapGet :: "('k \<times> 'v) list \<Rightarrow> 'k \<Rightarrow> 'v option" where
  "mapGet m k = map_of m k"

definition mapKeys :: "('k \<times> 'v) list \<Rightarrow> 'k list" where
  "mapKeys m = map fst m"

definition mapValues :: "('k \<times> 'v) list \<Rightarrow> 'v list" where
  "mapValues m = map snd m"

text \<open>The count values sorted with the comparator \<open>b - a\<close>: descending.\<close>

definition sortDesc :: "nat list \<Rightarrow> nat list" where
  "sortDesc xs = rev (sort xs)"

definition isRocket :: "Card list \<Rightarrow> counts \<Rightarrow> bool" where
  "isRocket cards cnts =
     (if length cards \<noteq> 2 then False
      else rank (cards ! 0) = SMALL_JOKER \<and> rank (cards ! 1) = BIG_JOKER)"

definition isBomb :: "counts \<Rightarrow> bool" where
  "isBomb cnts = (if length cnts \<noteq> 1 then False else mapValues cnts ! 0 = 4)"

definition isPair :: "counts \<Rightarrow> bool" where
  "isPair cnts = (if length cnts \<noteq> 1 then False else mapValues cnts ! 0 = 2)"

definition isTrio :: "counts \<Rightarrow> bool" where
  "isTrio cnts = (if length cnts \<noteq> 1 then False else mapValues cnts ! 0 = 3)"

definition isTrioSingle :: "counts \<Rightarrow> bool" where
  "isTrioSingle cnts =
     (if length cnts \<noteq> 2 then False
      else let countValues = sortDesc (mapValues cnts)
           in countValues ! 0 = 3 \<and> countValues ! 1 = 1)"

definition isTrioPair :: "counts \<Rightarrow> bool" where
  "isTrioPair cnts =
     (if length cnts \<noteq> 2 then False
      else let countValues = sortDesc (mapValues cnts)
           in countValues ! 0 = 3 \<and> countValues ! 1 = 2)"

definition findTrioValue :: "counts \<Rightarrow> int" where
  "findTrioValue cnts =
     (case find (\<lambda>v. mapGet cnts v = Some 3) (mapKeys cnts) of Some v \<Rightarrow> v | None \<Rightarrow> 0)"

definition findFourValue :: "counts \<Rightarrow> int" where
  "findFourValue cnts =
     (case find (\<lambda>v. mapGet cnts v = Some 4) (mapKeys cnts) of Some v \<Rightarrow> v | None \<Rightarrow> 0)"

text \<open>The loop \<open>for (i = 1; i < vs.length; i++) if (vs[i] - vs[i - 1] !== 1) return null\<close>.\<close>

definition consecutiveLoop :: "int list \<Rightarrow> bool" where
  "consecutiveLoop vs = list_all (\<lambda>i. vs ! i - vs ! (i - 1) = 1) [1..<length vs]"

text \<open>
  The three run recognisers differ in the minimal number of distinct values and in the
  count every value must have; each returns \<open>{minValue, length}\<close> or \<open>null\<close>.
\<close>

definition isStraight :: "int list \<Rightarrow> counts \<Rightarrow> (int \<times> nat) option" where
  "isStraight uniqueValues cnts =
     (if length uniqueValues < 5 then None
      else if list_ex (\<lambda>v. v \<ge> 15) uniqueValues then None
      else if list_ex (\<lambda>v. mapGet cnts v \<noteq> Some 1) uniqueValues then None
      else if \<not> consecutiveLoop uniqueValues then None
      else Some (uniqueValues ! 0, length uniqueValues))"

definition isPairStraight :: "int list \<Rightarrow> counts \<Rightarrow> (int \<times> nat) option" where
  "isPairStraight uniqueValues cnts =
     (if length uniqueValues < 3 then None
      else if list_ex (\<lambda>v. v \<ge> 15) uniqueValues then None
      else if list_ex (\<lambda>v. mapGet cnts v \<noteq> Some 2) uniqueValues then None
      else if \<not> consecutiveLoop uniqueValues then None
      else Some (uniqueValues ! 0, length uniqueValues))"

definition isTrioStraight :: "int list \<Rightarrow> counts \<Rightarrow> (int \<times> nat) option" where
  "isTrioStraight uniqueValues cnts =
     (if length uniqueValues < 2 then None
      else if list_ex (\<lambda>v. v \<ge> 15) uniqueValues then None
      else if list_ex (\<lambda>v. mapGet cnts v \<noteq> Some 3) uniqueValues then None
      else if \<not> consecutiveLoop uniqueValues then None
      else Some (uniqueValues ! 0, length uniqueValues))"

text \<open>
  The airplane with wings: the first loop puts every value to the trios or to the wings
  and gives up on any other count; \<open>trioValues.sort\<close> sorts in place before the run
  check.
\<close>

definition isTrioStraightSingle :: "int list \<Rightarrow> counts \<Rightarrow> (int \<times> nat) option" where
  "isTrioStraightSingle uniqueValues cnts =
     (if list_ex (\<lambda>v. mapGet cnts v \<noteq> Some 3 \<and> mapGet cnts v \<noteq> Some 1) uniqueValues then None
      else
        let trioValues = filter (\<lambda>v. mapGet cnts v = Some 3) uniqueValues;
            singleValues = filter (\<lambda>v. mapGet cnts v = Some 1) uniqueValues
        in if length trioValues < 2 then None
           else if length singleValues \<noteq> length trioValues then None
           else if list_ex (\<lambda>v. v \<ge> 15) trioValues then None
           else let trioValues = sort trioValues
                in if \<not> consecutiveLoop trioValues then None
                   else Some (trioValues ! 0, length trioValues))"

definition isTrioStraightPair :: "int list \<Rightarrow> counts \<Rightarrow> (int \<times> nat) option" where
  "isTrioStraightPair uniqueValues cnts =
     (if list_ex (\<lambda>v. mapGet cnts v \<noteq> Some 3 \<and> mapGet cnts v \<noteq> Some 2) uniqueValues then None
      else
        let trioValues = filter (\<lambda>v. mapGet cnts v = Some 3) uniqueValues;
            pairValues = filter (\<lambda>v. mapGet cnts v = Some 2) uniqueValues
        in if length trioValues < 2 then None
           else if length pairValues \<noteq> length trioValues then None
           else if list_ex (\<lambda>v. v \<ge> 15) trioValues then None
           else let trioValues = sort trioValues
                in if \<not> consecutiveLoop trioValues then None
                   else Some (trioValues ! 0, length trioValues))"

definition isFourDualSingle :: "counts \<Rightarrow> bool" where
  "isFourDualSingle cnts =
     (if length cnts \<noteq> 3 then False
      else let countValues = sortDesc (mapValues cnts)
           in countValues ! 0 = 4 \<and> countValues ! 1 = 1 \<and> countValues ! 2 = 1)"

definition isFourDualPair :: "counts \<Rightarrow> bool" where
  "isFourDualPair cnts =
     (if length cnts \<noteq> 3 then False
      else let countValues = sortDesc (mapValues cnts)
           in countValues ! 0 = 4 \<and> countValues ! 1 = 2 \<and> countValues ! 2 = 2)"

definition mkPattern :: "CardType \<Rightarrow> int \<Rightarrow> nat \<Rightarrow> Card list \<Rightarrow> CardPattern" where
  "mkPattern t v l cs = \<lparr>ptype = t, pvalue = v, plength = l, pcards = cs\<rparr>"

text \<open>\<open>recognizePattern\<close>: the checks in the source's order, the first match returns.\<close>

definition recognizePattern :: "Card list \<Rightarrow> CardPattern" where
  "recognizePattern cards =
     (if length cards = 0 then mkPattern INVALID 0 0 cards
      else
        let sorted' = sortCards cards;
            cnts = countCards sorted';
            uniqueValues = sort (mapKeys cnts)
        in if isRocket sorted' cnts then mkPattern ROCKET 17 2 sorted'
           else if isBomb cnts then mkPattern BOMB (uniqueValues ! 0) 4 sorted'
           else if length cards = 1 then mkPattern SINGLE (cvalue (cards ! 0)) 1 sorted'
           else if isPair cnts then mkPattern PAIR (uniqueValues ! 0) 2 sorted'
           else if isTrio cnts then mkPattern TRIO (uniqueValues ! 0) 3 sorted'
           else if isTrioSingle cnts then mkPattern TRIO_SINGLE (findTrioValue cnts) 4 sorted'
           else if isTrioPair cnts then mkPattern TRIO_PAIR (findTrioValue cnts) 5 sorted'
           else case isStraight uniqueValues cnts of
             Some (minValue, len) \<Rightarrow> mkPattern STRAIGHT minValue len sorted'
           | None \<Rightarrow>
           (case isPairStraight uniqueValues cnts of
             Some (minValue, len) \<Rightarrow> mkPattern PAIR_STRAIGHT minValue len sorted'
           | None \<Rightarrow>
           (case isTrioStraight uniqueValues cnts of
             Some (minValue, len) \<Rightarrow> mkPattern TRIO_STRAIGHT minValue len sorted'
           | None \<Rightarrow>
           (case isTrioStraightSingle uniqueValues cnts of
             Some (minValue, len) \<Rightarrow> mkPattern TRIO_STRAIGHT_SINGLE minValue len sorted'
           | None \<Rightarrow>
           (case isTrioStraightPair uniqueValues cnts of
             Some (minValue, len) \<Rightarrow> mkPattern TRIO_STRAIGHT_PAIR minValue len sorted'
           | None \<Rightarrow>
           if isFourDualSingle cnts then mkPattern FOUR_DUAL_SINGLE (findFourValue cnts) 6 sorted'
           else if isFourDualPair cnts then mkPattern FOUR_DUAL_PAIR (findFourValue cnts) 8 sorted'
           else mkPattern INVALID 0 0 sorted')))))"

text \<open>
  \<open>comparePatterns\<close> returns 1, 0, -1 or \<open>null\<close> (\<open>None\<close>); \<open>canBeat\<close> asks for 1.
\<close>

definition cmpValue :: "int \<Rightarrow> int \<Rightarrow> int" where
  "cmpValue a b = (if a > b then 1 else if a < b then -1 else 0)"

definition comparePatterns :: "CardPattern \<Rightarrow> CardPattern \<Rightarrow> int option" where
  "comparePatterns pattern1 pattern2 =
     (if ptype pattern1 = ROCKET then Some 1
      else if ptype pattern2 = ROCKET then Some (-1)
      else if ptype pattern1 = BOMB \<and> ptype pattern2 \<noteq> BOMB then Some 1
      else if ptype pattern2 = BOMB \<and> ptype pattern1 \<noteq> BOMB then Some (-1)
      else if ptype pattern1 = BOMB \<and> ptype pattern2 = BOMB
        then Some (cmpValue (pvalue pattern1) (pvalue pattern2))
      else if ptype pattern1 \<noteq> ptype pattern2 then None
      else if (ptype pattern1 = STRAIGHT \<or> ptype pattern1 = PAIR_STRAIGHT
               \<or> ptype pattern1 = TRIO_STRAIGHT \<or> ptype pattern1 = TRIO_STRAIGHT_SINGLE
               \<or> ptype pattern1 = TRIO_STRAIGHT_PAIR)
              \<and> plength pattern1 \<noteq> plength pattern2
        then None
      else Some (cmpValue (pvalue pattern1) (pvalue pattern2)))"

definition canBeat :: "CardPattern \<Rightarrow> CardPattern \<Rightarrow> bool" where
  "canBeat pattern1 pattern2 = (comparePatterns pattern1 pattern2 = Some 1)"

section \<open>The game engine (server/game/gameEngine.ts)\<close>

datatype GamePhase = BIDDING | PLAYING | FINISHED

text \<open>\<open>type PlayerPosition = 0 | 1 | 2\<close>.\<close>

datatype PlayerPosition = P0 | P1 | P2

fun posNum :: "PlayerPosition \<Rightarrow> nat" where
  "posNum P0 = 0"
| "posNum P1 = 1"
| "posNum P2 = 2"

definition numPos :: "nat \<Rightarrow> PlayerPosition" where
  "numPos n = (if n = 0 then P0 else if n = 1 then P1 else P2)"

text \<open>\<open>((p + 1) % 3) as PlayerPosition\<close>.\<close>

definition nextPosition :: "PlayerPosition \<Rightarrow> PlayerPosition" where
  "nextPosition p = numPos ((posNum p + 1) mod 3)"

text \<open>
  The \<open>type\<close> tag of an action: \<open>"bid" | "pass"\<close> for a bid action and
  \<open>"play" | "pass"\<close> for a play action.  The engine only tests \<open>=== "bid"\<close> and
  \<open>=== "play"\<close>; every other tag takes the pass branch.
\<close>

datatype ActionKind = BidKind | PlayKind | PassKind

record BidAction =
  bidType :: ActionKind
  amount :: "int option"

record PlayAction =
  playType :: ActionKind
  cards :: "Card list option"

datatype HistoryKind = HBid | HPassBid | HPlay | HPassPlay

datatype WinnerType = Landlord | Farmer

text \<open>
  The interface \<open>GameAction\<close>.  \<open>playerPosition\<close> is copied from \<open>currentPlayer\<close>,
  which can hold \<open>null\<close> at run time (see \<open>processPlayAction\<close>), hence the option.
\<close>

record GameAction =
  ga_roundNumber :: int
  playerPosition :: "PlayerPosition option"
  actionType :: HistoryKind
  ga_cards :: "jsstring list option"
  cardType :: "CardType option"
  bidAmount :: "int option"
  timestamp :: int

text \<open>
  The interface \<open>GameState\<close>.  Its field \<open>hands\<close> holds a reference to an object with
  the three hands; the spread copy \<open>{ ...state }\<close> copies the reference, not the object, so
  the hands live in a store and the state holds an address.  All other fields are values
  of the state object itself, and every state object the engine assigns to is a fresh
  spread copy, so they are fields of the record.  The arrays themselves are never updated
  in place by the engine (\<open>sortCards\<close>, \<open>removeCards\<close> and the history update build new
  arrays), so they are values too.

  \<open>currentPlayer\<close> is declared \<open>PlayerPosition\<close>, but \<open>newState.currentPlayer =
  state.lastPlayer!\<close> stores whatever \<open>lastPlayer\<close> holds (the \<open>!\<close> is erased at run
  time), hence the option; \<open>None\<close> is \<open>null\<close>.  Dates are numbers of milliseconds.
\<close>

type_synonym ref = nat

type_synonym store = "ref \<Rightarrow> Hands"

record GameState =
  gameId :: jsstring
  phase :: GamePhase
  player0ModelId :: int
  player1ModelId :: int
  player2ModelId :: int
  hands :: ref
  landlordCards :: "Card list"
  currentBidder :: PlayerPosition
  highestBid :: int
  highestBidder :: "PlayerPosition option"
  passCount :: int
  landlordPosition :: "PlayerPosition option"
  currentPlayer :: "PlayerPosition option"
  lastPlayedCards :: "Card list option"
  lastPlayedPattern :: "CardPattern option"
  lastPlayer :: "PlayerPosition option"
  consecutivePasses :: int
  roundNumber :: int
  history :: "GameAction list"
  winner :: "PlayerPosition option"
  winnerType :: "WinnerType option"
  startedAt :: int
  finishedAt :: "int option"

datatype error =
    NotInBiddingPhase
  | InvalidBidAmount
  | BidTooLow
  | NoBidderFound
  | NotInPlayingPhase
  | NoCardsProvided
  | CardsNotInHand
  | InvalidCardPattern
  | CannotBeat
  | CannotPassFirst
  | TypeError

text \<open>
  \<open>createGame\<close>: the object literal allocates one state object and one hands object.
  The address \<open>r\<close> of the new hands object, the draws of the shuffle, the identifier
  returned by \<open>nanoid()\<close> and the clock are arguments.
\<close>

definition createGame ::
  "store \<Rightarrow> ref \<Rightarrow> (nat \<Rightarrow> nat) \<Rightarrow> jsstring \<Rightarrow> int \<Rightarrow> int \<Rightarrow> int \<Rightarrow> int \<Rightarrow> store \<times> GameState" where
  "createGame st r rnd gid now p0 p1 p2 =
     (let dealt = dealCards rnd
      in (st (r := \<lparr>player0 = player0 dealt, player1 = player1 dealt, player2 = player2 dealt\<rparr>),
          \<lparr>gameId = gid, phase = BIDDING,
           player0ModelId = p0, player1ModelId = p1, player2ModelId = p2,
           hands = r,
           landlordCards = dealtLandlordCards dealt,
           currentBidder = P0, highestBid = 0, highestBidder = None, passCount = 0,
           landlordPosition = None, currentPlayer = Some P0,
           lastPlayedCards = None, lastPlayedPattern = None, lastPlayer = None,
           consecutivePasses = 0,
           roundNumber = 0, history = [],
           winner = None, winnerType = None,
           startedAt = now, finishedAt = None\<rparr>))"

text \<open>\<open>getPlayerHand\<close> and \<open>setPlayerHand\<close> read and write \<open>state.hands\<close> in the store.\<close>

fun getPlayerHand :: "store \<Rightarrow> GameState \<Rightarrow> PlayerPosition \<Rightarrow> Card list" where
  "getPlayerHand st state P0 = player0 (st (hands state))"
| "getPlayerHand st state P1 = player1 (st (hands state))"
| "getPlayerHand st state P2 = player2 (st (hands state))"

fun setPlayerHand :: "store \<Rightarrow> GameState \<Rightarrow> PlayerPosition \<Rightarrow> Card list \<Rightarrow> store" where
  "setPlayerHand st state P0 hand = st (hands state := (st (hands state))\<lparr>player0 := hand\<rparr>)"
| "setPlayerHand st state P1 hand = st (hands state := (st (hands state))\<lparr>player1 := hand\<rparr>)"
| "setPlayerHand st state P2 hand = st (hands state := (st (hands state))\<lparr>player2 := hand\<rparr>)"

text \<open>
  \<open>finalizeLandlord\<close>: a spread copy with the landlord fields set, then the landlord's
  hand, read and written through the copied reference.
\<close>

definition finalizeLandlord :: "store \<Rightarrow> GameState \<Rightarrow> store \<times> (error + GameState)" where
  "finalizeLandlord st state =
     (case highestBidder state of
        None \<Rightarrow> (st, Inl NoBidderFound)
      | Some bidder \<Rightarrow>
          let newState = state\<lparr>landlordPosition := Some bidder, phase := PLAYING,
                               currentPlayer := Some bidder\<rparr>;
              landlordHand = getPlayerHand st newState bidder;
              updatedHand = sortCards (landlordHand @ landlordCards state);
              st' = setPlayerHand st newState bidder updatedHand
          in (st', Inr newState))"

text \<open>
  \<open>processBidAction\<close>; \<open>now\<close> is the value of \<open>new Date()\<close>.  \<open>!action.amount\<close> holds
  for a missing amount and for 0.  Every \<open>throw\<close> is an \<open>Inl\<close>, returned with the store
  as it is at that point.
\<close>

definition processBidAction ::
  "store \<Rightarrow> GameState \<Rightarrow> BidAction \<Rightarrow> int \<Rightarrow> store \<times> (error + GameState)" where
  "processBidAction st state action now =
     (if phase state \<noteq> BIDDING then (st, Inl NotInBiddingPhase)
      else
        let currentPlayer' = currentBidder state;
            gameAction = \<lparr>ga_roundNumber = roundNumber state,
                          playerPosition = Some currentPlayer',
                          actionType = (if bidType action = BidKind then HBid else HPassBid),
                          ga_cards = None, cardType = None,
                          bidAmount = amount action, timestamp = now\<rparr>;
            newState = state\<lparr>history := history state @ [gameAction]\<rparr>;
            advance = (\<lambda>ns. (st, Inr (ns\<lparr>currentBidder := nextPosition currentPlayer',
                                            roundNumber := roundNumber ns + 1\<rparr>)))
        in if bidType action = BidKind then
             (case amount action of
                None \<Rightarrow> (st, Inl InvalidBidAmount)
              | Some a \<Rightarrow>
                  if a = 0 \<or> a < 1 \<or> a > 3 then (st, Inl InvalidBidAmount)
                  else if a \<le> highestBid state then (st, Inl BidTooLow)
                  else
                    let newState = newState\<lparr>highestBid := a,
                                             highestBidder := Some currentPlayer',
                                             passCount := 0\<rparr>
                    in if a = 3 then finalizeLandlord st newState
                       else advance newState)
           else
             let newState = newState\<lparr>passCount := passCount newState + 1\<rparr>
             in if passCount newState = 3 \<and> highestBidder newState = None then
                  finalizeLandlord st (newState\<lparr>highestBid := 1, highestBidder := Some P0\<rparr>)
                else if highestBidder newState \<noteq> None \<and> passCount newState = 2 then
                  finalizeLandlord st newState
                else advance newState)"

definition finishGame :: "GameState \<Rightarrow> PlayerPosition \<Rightarrow> int \<Rightarrow> GameState" where
  "finishGame state winner' now =
     state\<lparr>phase := FINISHED, winner := Some winner',
           winnerType := Some (if Some winner' = landlordPosition state then Landlord else Farmer),
           finishedAt := Some now\<rparr>"

text \<open>
  \<open>processPlayAction\<close>.  With \<open>currentPlayer\<close> \<open>null\<close> the \<open>switch\<close> of
  \<open>getPlayerHand\<close> matches no case and \<open>hand\<close> is \<open>undefined\<close>, on which \<open>hasCards\<close>
  throws a \<open>TypeError\<close> at \<open>hand.map\<close>; \<open>(null + 1) % 3\<close> is 1.
\<close>

definition nextPlayer :: "PlayerPosition option \<Rightarrow> PlayerPosition" where
  "nextPlayer p = (case p of None \<Rightarrow> numPos ((0 + 1) mod 3) | Some q \<Rightarrow> nextPosition q)"

definition processPlayAction ::
  "store \<Rightarrow> GameState \<Rightarrow> PlayAction \<Rightarrow> int \<Rightarrow> store \<times> (error + GameState)" where
  "processPlayAction st state action now =
     (if phase state \<noteq> PLAYING then (st, Inl NotInPlayingPhase)
      else
        let currentPlayer' = currentPlayer state;
            hand = map_option (getPlayerHand st state) currentPlayer';
            advance = (\<lambda>st' ns. (st', Inr (ns\<lparr>currentPlayer := Some (nextPlayer currentPlayer'),
                                                 roundNumber := roundNumber ns + 1\<rparr>)))
        in if playType action = PlayKind then
             (case cards action of
                None \<Rightarrow> (st, Inl NoCardsProvided)
              | Some cs \<Rightarrow>
                  if length cs = 0 then (st, Inl NoCardsProvided)
                  else (case (hand, currentPlayer') of
                    (Some hand', Some cp) \<Rightarrow>
                      if \<not> hasCards hand' cs then (st, Inl CardsNotInHand)
                      else
                        let pattern = recognizePattern cs
                        in if ptype pattern = INVALID then (st, Inl InvalidCardPattern)
                           else
                             let isNewRound = (lastPlayer state \<noteq> None
                                               \<and> lastPlayer state = currentPlayer');
                                 newState = (if isNewRound
                                             then state\<lparr>lastPlayedCards := None,
                                                        lastPlayedPattern := None,
                                                        consecutivePasses := 0\<rparr>
                                             else state)
                             in if (case lastPlayedPattern newState of
                                      None \<Rightarrow> False
                                    | Some lastPattern \<Rightarrow> \<not> canBeat pattern lastPattern)
                                then (st, Inl CannotBeat)
                                else
                                  let newHand = removeCards hand' cs;
                                      st' = setPlayerHand st newState cp newHand;
                                      gameAction = \<lparr>ga_roundNumber = roundNumber state,
                                                    playerPosition = currentPlayer',
                                                    actionType = HPlay,
                                                    ga_cards = Some (cardsToStrings cs),
                                                    cardType = Some (ptype pattern),
                                                    bidAmount = None, timestamp = now\<rparr>;
                                      newState = newState\<lparr>lastPlayedCards := Some cs,
                                                           lastPlayedPattern := Some pattern,
                                                           lastPlayer := currentPlayer',
                                                           consecutivePasses := 0,
                                                           history := history state @ [gameAction]\<rparr>
                                  in if length newHand = 0
                                     then (st', Inr (finishGame newState cp now))
                                     else advance st' newState
                  | _ \<Rightarrow> (st, Inl TypeError)))
           else
             if lastPlayedPattern state = None then (st, Inl CannotPassFirst)
             else
               let gameAction = \<lparr>ga_roundNumber = roundNumber state,
                                 playerPosition = currentPlayer',
                                 actionType = HPassPlay,
                                 ga_cards = None, cardType = None,
                                 bidAmount = None, timestamp = now\<rparr>;
                   newState = state\<lparr>consecutivePasses := consecutivePasses state + 1,
                                    history := history state @ [gameAction]\<rparr>
               in if consecutivePasses newState = 2 then
                    (st, Inr (newState\<lparr>lastPlayedCards := None, lastPlayedPattern := None,
                                       consecutivePasses := 0,
                                       currentPlayer := lastPlayer state,
                                       roundNumber := roundNumber newState + 1\<rparr>))
                  else advance st newState)"

text \<open>The object returned by \<open>getPublicGameState\<close>.\<close>

record PublicGameState =
  pub_gameId :: jsstring
  pub_phase :: GamePhase
  pub_roundNumber :: int
  myHand :: "jsstring list"
  player0HandCount :: nat
  player1HandCount :: nat
  player2HandCount :: nat
  pub_landlordPosition :: "PlayerPosition option"
  pub_landlordCards :: "jsstring list option"
  pub_currentBidder :: "PlayerPosition option"
  pub_highestBid :: int
  pub_highestBidder :: "PlayerPosition option"
  pub_currentPlayer :: "PlayerPosition option"
  pub_lastPlayedCards :: "jsstring list option"
  pub_lastPlayer :: "PlayerPosition option"
  pub_winner :: "PlayerPosition option"
  pub_winnerType :: "WinnerType option"

definition getPublicGameState :: "store \<Rightarrow> GameState \<Rightarrow> PlayerPosition \<Rightarrow> PublicGameState" where
  "getPublicGameState st state forPlayer =
     \<lparr>pub_gameId = gameId state,
      pub_phase = phase state,
      pub_roundNumber = roundNumber state,
      myHand = cardsToStrings (getPlayerHand st state forPlayer),
      player0HandCount = length (player0 (st (hands state))),
      player1HandCount = length (player1 (st (hands state))),
      player2HandCount = length (player2 (st (hands state))),
      pub_landlordPosition = landlordPosition state,
      pub_landlordCards =
        (if phase state = PLAYING then Some (cardsToStrings (landlordCards state)) else None),
      pub_currentBidder = (if phase state = BIDDING then Some (currentBidder state) else None),
      pub_highestBid = highestBid state,
      pub_highestBidder = highestBidder state,
      pub_currentPlayer = (if phase state = PLAYING then currentPlayer state else None),
      pub_lastPlayedCards = map_option cardsToStrings (lastPlayedCards state),
      pub_lastPlayer = lastPlayer state,
      pub_winner = winner state,
      pub_winnerType = winnerType state\<rparr>"

section \<open>Specification-side notions and sample inputs\<close>

text \<open>
  The identity of a card is its suit and rank; a standard deck has the 52 pairs of an
  ordinary suit and an ordinary rank and the two jokers.
\<close>

definition cardIdentity :: "Card \<Rightarrow> Suit \<times> Rank" where
  "cardIdentity c = (suit c, rank c)"

definition standardIdentities :: "(Suit \<times> Rank) list" where
  "standardIdentities =
     List.product [SPADE, HEART, CLUB, DIAMOND]
       [THREE, FOUR, FIVE, SIX, SEVEN, EIGHT, NINE, TEN, JACK, QUEEN, KING, ACE, TWO]
     @ [(JOKER, SMALL_JOKER), (JOKER, BIG_JOKER)]"

definition dealtAll :: "Dealt \<Rightarrow> Card list" where
  "dealtAll d = player0 d @ player1 d @ player2 d @ dealtLandlordCards d"

text \<open>
  Two supplies of draws for the shuffle: \<open>j = i\<close> at every step (nothing moves), and the
  same with \<open>j = 0\<close> at step 13 (the cards at indices 0 and 13 change places).
\<close>

definition noSwapDraws :: "nat \<Rightarrow> nat" where
  "noSwapDraws i = i"

definition oneSwapDraws :: "nat \<Rightarrow> nat" where
  "oneSwapDraws i = (if i = 13 then 0 else i)"

text \<open>
  The dominance order in the words of the specification: Rocket beats everything, a Bomb
  beats what is neither Bomb nor Rocket, two Bombs compare by value, and otherwise the
  types agree, the lengths agree for a shape of variable length, and the value is
  strictly higher.
\<close>

definition variableLengthShape :: "CardType \<Rightarrow> bool" where
  "variableLengthShape t =
     (t = STRAIGHT \<or> t = PAIR_STRAIGHT \<or> t = TRIO_STRAIGHT \<or> t = TRIO_STRAIGHT_SINGLE
      \<or> t = TRIO_STRAIGHT_PAIR)"

definition dominates :: "CardPattern \<Rightarrow> CardPattern \<Rightarrow> bool" where
  "dominates challenger incumbent =
     (if ptype challenger = ROCKET then True
      else if ptype challenger = BOMB \<and> ptype incumbent \<noteq> BOMB \<and> ptype incumbent \<noteq> ROCKET
        then True
      else if ptype challenger = BOMB \<and> ptype incumbent = BOMB
        then pvalue challenger > pvalue incumbent
      else ptype challenger = ptype incumbent
           \<and> (variableLengthShape (ptype challenger) \<longrightarrow> plength challenger = plength incumbent)
           \<and> pvalue challenger > pvalue incumbent)"

text \<open>
  The straight in the words of the specification: at least five cards, every value once,
  all below 15, and the values in order are the interval that starts at the lowest one.
\<close>

definition cardValues :: "Card list \<Rightarrow> int list" where
  "cardValues cs = map cvalue cs"

definition straightShape :: "Card list \<Rightarrow> bool" where
  "straightShape cs =
     (5 \<le> length cs
      \<and> distinct (cardValues cs)
      \<and> (\<forall>c \<in> set cs. cvalue c < 15)
      \<and> sort (cardValues cs)
          = [Min (set (cardValues cs)) .. Min (set (cardValues cs)) + int (length cs) - 1])"

text \<open>
  The rule violations of the two entry points, read off the specification's taxonomy:
  wrong phase, a bid amount that is missing, outside 1..3 or not above the highest bid,
  an empty play, cards not in the hand, an invalid shape, a play that cannot beat the
  active pattern, and a pass with no active pattern.  A play by a \<open>null\<close> seat is counted
  with them: it fails on the hand lookup.
\<close>

definition bidViolation :: "GameState \<Rightarrow> BidAction \<Rightarrow> bool" where
  "bidViolation s a =
     (phase s \<noteq> BIDDING
      \<or> (bidType a = BidKind
          \<and> (case amount a of None \<Rightarrow> True | Some n \<Rightarrow> n < 1 \<or> n > 3 \<or> n \<le> highestBid s)))"

definition playViolation :: "store \<Rightarrow> GameState \<Rightarrow> PlayAction \<Rightarrow> bool" where
  "playViolation st s a =
     (phase s \<noteq> PLAYING
      \<or> (if playType a = PlayKind then
            (case cards a of
               None \<Rightarrow> True
             | Some cs \<Rightarrow>
                 cs = []
                 \<or> (case currentPlayer s of
                       None \<Rightarrow> True
                     | Some p \<Rightarrow>
                         \<not> hasCards (getPlayerHand st s p) cs
                         \<or> ptype (recognizePattern cs) = INVALID
                         \<or> (lastPlayer s \<noteq> Some p
                             \<and> (case lastPlayedPattern s of
                                   None \<Rightarrow> False
                                 | Some lp \<Rightarrow> \<not> canBeat (recognizePattern cs) lp))))
          else lastPlayedPattern s = None))"

text \<open>
  Sample games: a fresh game dealt from the unshuffled deck and a second one dealt with
  the cards at deck indices 50 and 51 exchanged, so that the two differ in one card of
  seat 2 and one card of the landlord pile only; both after seat 0 has bid 3; a game in
  the bidding phase after two passes; and a game in the playing phase in which seat 0 has
  led a single 3 and seat 1 has passed.
\<close>

definition emptyStore :: store where
  "emptyStore = (\<lambda>_. \<lparr>player0 = [], player1 = [], player2 = []\<rparr>)"

definition game0 :: "store \<times> GameState" where
  "game0 = createGame emptyStore 0 noSwapDraws [] 0 1 2 3"

definition pileSwapDraws :: "nat \<Rightarrow> nat" where
  "pileSwapDraws i = (if i = 51 then 50 else i)"

definition game1 :: "store \<times> GameState" where
  "game1 = createGame emptyStore 0 pileSwapDraws [] 0 1 2 3"

definition twoPasses :: GameState where
  "twoPasses = (snd game0)\<lparr>passCount := 2, currentBidder := P2, roundNumber := 2\<rparr>"

definition onePassTrick :: GameState where
  "onePassTrick =
     (snd game0)\<lparr>phase := PLAYING, landlordPosition := Some P0, currentPlayer := Some P2,
       lastPlayedCards := Some [mkCard SPADE THREE],
       lastPlayedPattern := Some (recognizePattern [mkCard SPADE THREE]),
       lastPlayer := Some P0, consecutivePasses := 1, roundNumber := 3\<rparr>"

definition bid3 :: BidAction where
  "bid3 = \<lparr>bidType = BidKind, amount = Some 3\<rparr>"

definition afterBid3 :: "store \<times> GameState \<Rightarrow> store \<times> GameState" where
  "afterBid3 g =
     (case processBidAction (fst g) (snd g) bid3 0 of
        (st', Inr s') \<Rightarrow> (st', s')
      | (st', Inl e) \<Rightarrow> (st', snd g))"

definition bid0 :: BidAction where
  "bid0 = \<lparr>bidType = BidKind, amount = Some 0\<rparr>"

definition passBid :: BidAction where
  "passBid = \<lparr>bidType = PassKind, amount = None\<rparr>"

definition passPlay :: PlayAction where
  "passPlay = \<lparr>playType = PassKind, cards = None\<rparr>"

definition straight37 :: "Card list" where
  "straight37 = [mkCard SPADE THREE, mkCard HEART FOUR, mkCard DIAMOND FIVE, mkCard CLUB SIX,
     mkCard SPADE SEVEN]"

definition run10to2 :: "Card list" where
  "run10to2 = [mkCard SPADE TEN, mkCard HEART JACK, mkCard DIAMOND QUEEN, mkCard CLUB KING,
     mkCard SPADE ACE, mkCard SPADE TWO]"

definition jokers :: "Card list" where
  "jokers = [mkCard JOKER SMALL_JOKER, mkCard JOKER BIG_JOKER]"

text \<open>The values the recogniser works on, and one step of the counting loop.\<close>

definition uniqueValuesOf :: "Card list \<Rightarrow> int list" where
  "uniqueValuesOf cs = sort (mapKeys (countCards (sortCards cs)))"

abbreviation countStep :: "counts \<Rightarrow> Card \<Rightarrow> counts" where
  "countStep \<equiv> (\<lambda>counts c. mapSet (cvalue c) (getOr0 counts (cvalue c) + 1) counts)"

section \<open>Properties of the comparator\<close>

text \<open>
  Claim C2.  \<open>canBeat\<close> is exactly the dominance order of the specification: a Rocket
  challenger wins; a Bomb wins over what is neither Bomb nor Rocket; two Bombs compare by
  value; otherwise the challenger wins iff the types agree, the lengths agree when the
  shape has variable length, and its value is strictly higher.  \<open>canBeat\<close> is a total
  function into \<open>bool\<close>: no input makes it throw.
\<close>

theorem C2_canBeat_dominance: "canBeat challenger incumbent = dominates challenger incumbent"
  by (auto simp: canBeat_def comparePatterns_def dominates_def variableLengthShape_def
      cmpValue_def)

theorem C2_canBeat_dominance_witness:
  "canBeat (mkPattern STRAIGHT 4 5 []) (mkPattern STRAIGHT 3 5 [])
   \<and> \<not> canBeat (mkPattern STRAIGHT 4 6 []) (mkPattern STRAIGHT 3 5 [])
   \<and> \<not> canBeat (mkPattern PAIR 4 2 []) (mkPattern SINGLE 3 1 [])
   \<and> canBeat (mkPattern BOMB 3 4 []) (mkPattern PAIR 15 2 [])"
  using C2_canBeat_dominance [of "mkPattern STRAIGHT 4 5 []" "mkPattern STRAIGHT 3 5 []"]
    C2_canBeat_dominance [of "mkPattern STRAIGHT 4 6 []" "mkPattern STRAIGHT 3 5 []"]
    C2_canBeat_dominance [of "mkPattern PAIR 4 2 []" "mkPattern SINGLE 3 1 []"]
    C2_canBeat_dominance [of "mkPattern BOMB 3 4 []" "mkPattern PAIR 15 2 []"]
  by (simp add: dominates_def variableLengthShape_def mkPattern_def)

text \<open>
  Claim C5, as stated, fails for two Rockets: the first test of \<open>comparePatterns\<close>
  answers 1 for every Rocket challenger, so the Rocket recognised from the two jokers
  beats itself.
\<close>

theorem C5_rocket_beats_rocket:
  "ptype (recognizePattern jokers) = ROCKET
   \<and> canBeat (recognizePattern jokers) (recognizePattern jokers)"
  by (simp add: canBeat_def comparePatterns_def recognizePattern_def isRocket_def sortCards_def
      mkCard_def mkPattern_def jokers_def)

text \<open>
  Claim C5, amended.  Two patterns of the same type and the same value, the type not being
  Rocket, never beat one another: \<open>canBeat\<close> is false.
\<close>

theorem C5_no_self_beat:
  "ptype x = ptype incumbent \<Longrightarrow> pvalue x = pvalue incumbent \<Longrightarrow> ptype x \<noteq> ROCKET
   \<Longrightarrow> \<not> canBeat x incumbent"
  by (auto simp: canBeat_def comparePatterns_def cmpValue_def)

theorem C5_no_self_beat_witness:
  "\<not> canBeat (mkPattern BOMB 9 4 []) (mkPattern BOMB 9 4 [])"
  using C5_no_self_beat [of "mkPattern BOMB 9 4 []" "mkPattern BOMB 9 4 []"]
  by (simp add: mkPattern_def)

section \<open>Properties of the card model\<close>

lemma stringsToCards_foldl:
  "foldl (\<lambda>cards str. case stringToCard str of None \<Rightarrow> cards | Some c \<Rightarrow> cards @ [c]) acc strings
   = acc @ map the (filter (\<lambda>r. r \<noteq> None) (map stringToCard strings))"
  by (induction strings arbitrary: acc) (auto split: option.splits)

lemma stringsToCards_eq:
  "stringsToCards strings = map the (filter (\<lambda>r. r \<noteq> None) (map stringToCard strings))"
  by (simp add: stringsToCards_def stringsToCards_foldl)

text \<open>
  Claim C10.  \<open>stringsToCards\<close> is total: on every list of tokens it returns the cards of
  the tokens that \<open>stringToCard\<close> parses, in input order, and leaves out every token
  parsed to \<open>null\<close>.  The result is never longer than the input and can be strictly
  shorter, as on the three tokens spade-3, \<open>?\<close> and the big joker.
\<close>

theorem C10_stringsToCards_total:
  "stringsToCards strings = map the (filter (\<lambda>r. r \<noteq> None) (map stringToCard strings))
   \<and> length (stringsToCards strings) \<le> length strings
   \<and> length (stringsToCards [[0x2660, 0x33], [0x3F], [0x5927, 0x738B]]) < 3"
proof -
  have b: "length (stringsToCards strings) \<le> length strings"
    unfolding stringsToCards_eq by (metis length_filter_le length_map)
  have c: "length (stringsToCards [[0x2660, 0x33], [0x3F], [0x5927, 0x738B]]) < 3"
    unfolding stringsToCards_eq by (simp add: stringToCard_def all_suits_def all_ranks_def)
  from stringsToCards_eq [of strings] b c show ?thesis by blast
qed

theorem C10_stringsToCards_total_witness:
  "stringsToCards [[0x2660, 0x33], [0x3F], [], [0x5927, 0x738B]]
   = [mkCard SPADE THREE, mkCard JOKER BIG_JOKER]"
  using C10_stringsToCards_total [of "[[0x2660, 0x33], [0x3F], [], [0x5927, 0x738B]]"]
  by (simp add: stringToCard_def all_suits_def all_ranks_def)

subsection \<open>The shuffle is a permutation\<close>

lemma length_swap: "length (swap i j xs) = length xs"
  by (simp add: swap_def)

lemma mset_swap_list: "i < length xs \<Longrightarrow> j < length xs \<Longrightarrow> mset (swap i j xs) = mset xs"
  by (simp add: swap_def mset_swap)

lemma length_shuffleLoop: "length (shuffleLoop rnd i xs) = length xs"
  by (induction i arbitrary: xs) (simp_all add: Let_def length_swap)

lemma mset_shuffleLoop: "i < length xs \<Longrightarrow> mset (shuffleLoop rnd i xs) = mset xs"
proof (induction i arbitrary: xs)
  case 0
  then show ?case by simp
next
  case (Suc i)
  let ?j = "rnd (Suc i) mod (Suc i + 1)"
  have "?j < Suc i + 1" by simp
  then have j: "?j < length xs" using Suc.prems by linarith
  have "mset (shuffleLoop rnd i (swap (Suc i) ?j xs)) = mset (swap (Suc i) ?j xs)"
    using Suc.prems by (intro Suc.IH) (simp add: length_swap)
  then show ?case using Suc.prems j by (simp add: Let_def mset_swap_list)
qed

lemma mset_shuffleDeck: "mset (shuffleDeck rnd deck) = mset deck"
proof (cases deck)
  case Nil
  then show ?thesis by (simp add: shuffleDeck_def)
next
  case (Cons c cs)
  then show ?thesis by (simp add: shuffleDeck_def mset_shuffleLoop)
qed

lemma length_shuffleDeck: "length (shuffleDeck rnd deck) = length deck"
  by (simp add: shuffleDeck_def length_shuffleLoop)

subsection \<open>The deal\<close>

lemma length_createDeck: "length createDeck = 54"
  by (simp add: createDeck_def deck_suits_def deck_ranks_def)

lemma identities_createDeck: "map cardIdentity createDeck = standardIdentities"
  by (simp add: createDeck_def deck_suits_def deck_ranks_def standardIdentities_def
      cardIdentity_def mkCard_def)

lemma distinct_standardIdentities: "distinct standardIdentities"
  by code_simp

lemma slices_partition:
  assumes "length d = 54"
  shows "slice 0 17 d @ slice 17 34 d @ slice 34 51 d @ slice 51 54 d = d"
proof -
  have a: "take 3 (drop 51 d) = drop 51 d" using assms by simp
  have b: "take 17 (drop 34 d) @ drop 51 d = drop 34 d"
    using append_take_drop_id [of 17 "drop 34 d"] by simp
  have c: "take 17 (drop 17 d) @ drop 34 d = drop 17 d"
    using append_take_drop_id [of 17 "drop 17 d"] by simp
  have e: "take 17 d @ drop 17 d = d" by simp
  have "take 17 d @ take 17 (drop 17 d) @ take 17 (drop 34 d) @ take 3 (drop 51 d) = d"
    unfolding a b c e ..
  then show ?thesis by (simp add: slice_def)
qed

lemma deal_concat: "mset (dealtAll (dealCards rnd)) = mset createDeck"
proof -
  let ?d = "shuffleDeck rnd createDeck"
  have "length ?d = 54" by (simp add: length_shuffleDeck length_createDeck)
  then have "slice 0 17 ?d @ slice 17 34 ?d @ slice 34 51 ?d @ slice 51 54 ?d = ?d"
    by (rule slices_partition)
  then have "mset (slice 0 17 ?d) + mset (slice 17 34 ?d) + mset (slice 34 51 ?d)
             + mset (slice 51 54 ?d) = mset ?d"
    by (metis mset_append add.assoc)
  then show ?thesis
    by (simp add: dealtAll_def dealCards_def Let_def sortCards_def mset_shuffleDeck add.assoc)
qed

lemma deal_lengths:
  "length (player0 (dealCards rnd)) = 17 \<and> length (player1 (dealCards rnd)) = 17
   \<and> length (player2 (dealCards rnd)) = 17 \<and> length (dealtLandlordCards (dealCards rnd)) = 3"
  by (simp add: dealCards_def Let_def sortCards_def slice_def length_shuffleDeck
      length_createDeck)

lemma deal_sorted:
  "sorted (map cvalue (player0 (dealCards rnd))) \<and> sorted (map cvalue (player1 (dealCards rnd)))
   \<and> sorted (map cvalue (player2 (dealCards rnd)))
   \<and> sorted (map cvalue (dealtLandlordCards (dealCards rnd)))"
  by (simp add: dealCards_def Let_def sortCards_def)

lemma deal_identities:
  "mset (map cardIdentity (dealtAll (dealCards rnd))) = mset standardIdentities"
  by (metis deal_concat identities_createDeck mset_map)

text \<open>
  Claim C7, as stated, fails in its last clause: \<open>sortCards\<close> compares values only,
  so the suit never decides between cards of equal value.  With the cards at deck indices
  0 and 13 exchanged, seat 0's hand starts heart-3, spade-3, spade-4, heart-4: no order
  on suits breaks both ties.
\<close>

theorem C7_no_suit_tie_break:
  "take 4 (player0 (dealCards oneSwapDraws))
   = [mkCard HEART THREE, mkCard SPADE THREE, mkCard SPADE FOUR, mkCard HEART FOUR]"
  by code_simp

text \<open>
  Claim C7, amended.  For every supply of draws, \<open>dealCards\<close> returns three hands of 17
  cards and a landlord pile of 3 whose identities are pairwise distinct and are exactly
  the 54 identities of a standard deck, and each of the four sequences is sorted
  ascending by card value.
\<close>

theorem C7_deal_partition:
  "length (player0 (dealCards rnd)) = 17 \<and> length (player1 (dealCards rnd)) = 17
   \<and> length (player2 (dealCards rnd)) = 17 \<and> length (dealtLandlordCards (dealCards rnd)) = 3
   \<and> distinct (map cardIdentity (dealtAll (dealCards rnd)))
   \<and> set (map cardIdentity (dealtAll (dealCards rnd))) = set standardIdentities
   \<and> length standardIdentities = 54 \<and> distinct standardIdentities
   \<and> sorted (map cvalue (player0 (dealCards rnd)))
   \<and> sorted (map cvalue (player1 (dealCards rnd)))
   \<and> sorted (map cvalue (player2 (dealCards rnd)))
   \<and> sorted (map cvalue (dealtLandlordCards (dealCards rnd)))"
proof -
  have d: "distinct (map cardIdentity (dealtAll (dealCards rnd)))"
    using deal_identities [of rnd] distinct_standardIdentities
    by (metis mset_eq_imp_distinct_iff)
  have s: "set (map cardIdentity (dealtAll (dealCards rnd))) = set standardIdentities"
    using deal_identities [of rnd] by (rule mset_eq_setD)
  have l: "length standardIdentities = 54"
    by (simp add: standardIdentities_def)
  from d s l distinct_standardIdentities deal_lengths [of rnd] deal_sorted [of rnd]
  show ?thesis by simp
qed

theorem C7_deal_partition_witness:
  "length (player0 (dealCards oneSwapDraws)) = 17
   \<and> length (dealtLandlordCards (dealCards oneSwapDraws)) = 3
   \<and> distinct (map cardIdentity (dealtAll (dealCards oneSwapDraws)))
   \<and> sorted (map cvalue (player0 (dealCards oneSwapDraws)))"
  using C7_deal_partition [of oneSwapDraws] by simp

section \<open>Properties of the recogniser\<close>

subsection \<open>The count map\<close>

lemma map_of_mapSet: "map_of (mapSet k v m) = (map_of m)(k \<mapsto> v)"
  by (induction m) (auto simp: fun_eq_iff)

lemma keys_mapSet: "fst ` set (mapSet k v m) = insert k (fst ` set m)"
  by (induction m) auto

lemma distinct_mapSet: "distinct (map fst m) \<Longrightarrow> distinct (map fst (mapSet k v m))"
  by (induction m) (auto simp: keys_mapSet)

lemma getOr0_mapSet: "getOr0 (mapSet k v m) k' = (if k' = k then v else getOr0 m k')"
  by (simp add: getOr0_def map_of_mapSet)

lemma keys_countLoop:
  "fst ` set (foldl countStep m xs) = fst ` set m \<union> cvalue ` set xs"
  by (induction xs arbitrary: m) (auto simp: keys_mapSet)

lemma distinct_countLoop:
  "distinct (map fst m) \<Longrightarrow> distinct (map fst (foldl countStep m xs))"
  by (induction xs arbitrary: m) (auto simp: distinct_mapSet)

lemma getOr0_countLoop:
  "getOr0 (foldl countStep m xs) v = getOr0 m v + count_list (map cvalue xs) v"
  by (induction xs arbitrary: m) (auto simp: getOr0_mapSet)

lemma keys_countCards: "set (mapKeys (countCards xs)) = cvalue ` set xs"
  using keys_countLoop [of "[]" xs] by (simp add: countCards_def mapKeys_def)

lemma distinct_countCards: "distinct (mapKeys (countCards xs))"
  using distinct_countLoop [of "[]" xs] by (simp add: countCards_def mapKeys_def)

lemma getOr0_countCards: "getOr0 (countCards xs) v = count_list (map cvalue xs) v"
  using getOr0_countLoop [of "[]" xs v] by (simp add: countCards_def getOr0_def)

lemma mapGet_countCards:
  "mapGet (countCards xs) v
   = (if v \<in> cvalue ` set xs then Some (count_list (map cvalue xs) v) else None)"
proof (cases "v \<in> cvalue ` set xs")
  case True
  then have "v \<in> fst ` set (countCards xs)"
    using keys_countCards [of xs] by (simp add: mapKeys_def)
  then obtain n where n: "map_of (countCards xs) v = Some n"
    by (metis domD domI dom_map_of_conv_image_fst [symmetric] not_None_eq domIff)
  then have "getOr0 (countCards xs) v = n" by (simp add: getOr0_def)
  with n True show ?thesis by (simp add: mapGet_def getOr0_countCards)
next
  case False
  then have "v \<notin> fst ` set (countCards xs)"
    using keys_countCards [of xs] by (simp add: mapKeys_def)
  then have "map_of (countCards xs) v = None"
    by (simp add: map_of_eq_None_iff)
  with False show ?thesis by (simp add: mapGet_def)
qed

lemma set_sortCards: "set (sortCards cs) = set cs"
  by (simp add: sortCards_def)

lemma count_list_sortCards:
  "count_list (map cvalue (sortCards cs)) v = count_list (map cvalue cs) v"
proof -
  have "mset (map cvalue (sortCards cs)) = mset (map cvalue cs)"
    by (simp add: sortCards_def)
  then show ?thesis by (metis count_mset)
qed

subsection \<open>Runs of consecutive values\<close>

lemma consecutiveLoop_nth:
  assumes "consecutiveLoop vs" and "i < length vs"
  shows "vs ! i = vs ! 0 + int i"
  using assms(2)
proof (induction i)
  case 0
  then show ?case by simp
next
  case (Suc i)
  then have "Suc i \<in> set [1..<length vs]" by simp
  then have "vs ! Suc i - vs ! (Suc i - 1) = 1"
    using assms(1) unfolding consecutiveLoop_def list_all_iff by blast
  with Suc show ?case by simp
qed

lemma consecutiveLoop_iff_upto:
  assumes "vs \<noteq> []"
  shows "consecutiveLoop vs = (vs = [vs ! 0 .. vs ! 0 + int (length vs) - 1])"
proof
  assume c: "consecutiveLoop vs"
  show "vs = [vs ! 0 .. vs ! 0 + int (length vs) - 1]"
  proof (rule nth_equalityI)
    show "length vs = length [vs ! 0 .. vs ! 0 + int (length vs) - 1]" by simp
  next
    fix i assume "i < length vs"
    then show "vs ! i = [vs ! 0 .. vs ! 0 + int (length vs) - 1] ! i"
      using consecutiveLoop_nth [OF c] by (simp add: nth_upto)
  qed
next
  assume e: "vs = [vs ! 0 .. vs ! 0 + int (length vs) - 1]"
  have "vs ! i - vs ! (i - 1) = 1" if "1 \<le> i" "i < length vs" for i
  proof -
    have "vs ! i = vs ! 0 + int i"
      using that by (subst e) (simp add: nth_upto)
    moreover have "vs ! (i - 1) = vs ! 0 + int (i - 1)"
      using that by (subst e) (simp add: nth_upto)
    ultimately show ?thesis using that by simp
  qed
  then show "consecutiveLoop vs"
    by (simp add: consecutiveLoop_def list_all_iff)
qed

lemma sorted_nth0_Min:
  assumes "sorted vs" and "vs \<noteq> []"
  shows "vs ! 0 = Min (set vs)"
proof -
  have "vs ! 0 \<in> set vs" using assms(2) by simp
  moreover have "\<forall>x \<in> set vs. vs ! 0 \<le> x"
    using assms by (cases vs) auto
  ultimately show ?thesis by (intro Min_eqI [symmetric]) auto
qed

subsection \<open>The distinct values of a play\<close>

lemma set_uniqueValuesOf: "set (uniqueValuesOf cs) = set (cardValues cs)"
  by (simp add: uniqueValuesOf_def keys_countCards set_sortCards cardValues_def)

lemma distinct_uniqueValuesOf: "distinct (uniqueValuesOf cs)"
  by (simp add: uniqueValuesOf_def distinct_countCards)

lemma sorted_uniqueValuesOf: "sorted (uniqueValuesOf cs)"
  by (simp add: uniqueValuesOf_def)

lemma length_uniqueValuesOf: "length (uniqueValuesOf cs) = card (set (cardValues cs))"
  by (metis distinct_card distinct_uniqueValuesOf set_uniqueValuesOf)

lemma length_countCards: "length (countCards (sortCards cs)) = card (set (cardValues cs))"
  using length_uniqueValuesOf [of cs] by (simp add: uniqueValuesOf_def mapKeys_def)

lemma uniqueValuesOf_distinct:
  "distinct (cardValues cs) \<Longrightarrow> uniqueValuesOf cs = sort (cardValues cs)"
  by (metis distinct_sort distinct_uniqueValuesOf set_sort set_uniqueValuesOf
      sorted_distinct_set_unique sorted_sort sorted_uniqueValuesOf)

lemma singles_iff_distinct:
  "(\<forall>v \<in> set (uniqueValuesOf cs). mapGet (countCards (sortCards cs)) v = Some 1)
   = distinct (cardValues cs)"
proof -
  have "(\<forall>v \<in> set (cardValues cs). count_list (cardValues cs) v = 1) = distinct (cardValues cs)"
    by (metis count_mset distinct_count_atmost_1 count_list_0_iff zero_neq_one)
  moreover have "mapGet (countCards (sortCards cs)) v = Some (count_list (cardValues cs) v)"
    if "v \<in> set (cardValues cs)" for v
    using that by (simp add: mapGet_countCards count_list_sortCards set_sortCards cardValues_def)
  ultimately show ?thesis by (simp add: set_uniqueValuesOf)
qed

subsection \<open>The straight\<close>

lemma isStraight_iff:
  "(isStraight (uniqueValuesOf cs) (countCards (sortCards cs)) \<noteq> None) = straightShape cs"
proof (cases "distinct (cardValues cs)")
  case False
  then show ?thesis
    using singles_iff_distinct [of cs]
    by (auto simp: isStraight_def straightShape_def list_ex_iff)
next
  case True
  have u: "uniqueValuesOf cs = sort (cardValues cs)"
    using True by (rule uniqueValuesOf_distinct)
  have len: "length (uniqueValuesOf cs) = length cs"
    by (simp add: u cardValues_def)
  have singles: "\<not> list_ex (\<lambda>v. mapGet (countCards (sortCards cs)) v \<noteq> Some 1) (uniqueValuesOf cs)"
    using True singles_iff_distinct [of cs] by (simp add: list_ex_iff)
  have below: "list_ex (\<lambda>v. v \<ge> 15) (uniqueValuesOf cs) = (\<not> (\<forall>c \<in> set cs. cvalue c < 15))"
    by (auto simp: list_ex_iff set_uniqueValuesOf cardValues_def not_less)
  show ?thesis
  proof (cases "5 \<le> length cs")
    case False
    then show ?thesis by (simp add: isStraight_def straightShape_def len)
  next
    case five: True
    then have ne: "uniqueValuesOf cs \<noteq> []" using len by auto
    have min: "uniqueValuesOf cs ! 0 = Min (set (cardValues cs))"
      using sorted_nth0_Min [OF sorted_uniqueValuesOf ne] by (simp add: set_uniqueValuesOf)
    have "consecutiveLoop (uniqueValuesOf cs)
          = (sort (cardValues cs)
             = [Min (set (cardValues cs)) .. Min (set (cardValues cs)) + int (length cs) - 1])"
      using consecutiveLoop_iff_upto [OF ne] by (simp add: min len) (simp add: u)
    then show ?thesis
      using True five singles below by (simp add: isStraight_def straightShape_def len)
  qed
qed

lemma isStraight_result:
  "isStraight vs cnts = Some r \<Longrightarrow> r = (vs ! 0, length vs)"
  by (auto simp: isStraight_def split: if_splits)

lemma recognizePattern_straight:
  assumes "straightShape cs"
  shows "recognizePattern cs
         = mkPattern STRAIGHT (Min (set (cardValues cs))) (length cs) (sortCards cs)"
proof -
  have five: "5 \<le> length cs" and d: "distinct (cardValues cs)"
    using assms by (simp_all add: straightShape_def)
  have lc: "length (countCards (sortCards cs)) = length cs"
    using distinct_card [OF d] by (simp add: length_countCards) (simp add: cardValues_def)
  have u: "uniqueValuesOf cs = sort (cardValues cs)"
    using d by (rule uniqueValuesOf_distinct)
  have "length (uniqueValuesOf cs) = length cs" by (simp add: u cardValues_def)
  then have ne: "uniqueValuesOf cs \<noteq> []" using five by auto
  have min: "uniqueValuesOf cs ! 0 = Min (set (cardValues cs))"
    using sorted_nth0_Min [OF sorted_uniqueValuesOf ne] by (simp add: set_uniqueValuesOf)
  obtain r where r: "isStraight (uniqueValuesOf cs) (countCards (sortCards cs)) = Some r"
    using assms isStraight_iff [of cs] by auto
  then have "r = (Min (set (cardValues cs)), length cs)"
    using isStraight_result [OF r] by (simp add: min) (simp add: u cardValues_def)
  with r have s: "isStraight (sort (mapKeys (countCards (sortCards cs)))) (countCards (sortCards cs))
                  = Some (Min (set (cardValues cs)), length cs)"
    by (simp add: uniqueValuesOf_def)
  have "\<not> isRocket (sortCards cs) (countCards (sortCards cs))"
    using five by (simp add: isRocket_def sortCards_def)
  moreover have "\<not> isBomb (countCards (sortCards cs))" "\<not> isPair (countCards (sortCards cs))"
    "\<not> isTrio (countCards (sortCards cs))" "\<not> isTrioSingle (countCards (sortCards cs))"
    "\<not> isTrioPair (countCards (sortCards cs))"
    using five lc by (simp_all add: isBomb_def isPair_def isTrio_def isTrioSingle_def isTrioPair_def)
  moreover have "cs \<noteq> []" "length cs \<noteq> 1" using five by auto
  ultimately show ?thesis
    using s by (simp add: recognizePattern_def Let_def)
qed

lemma recognizePattern_straight_only:
  assumes "ptype (recognizePattern cs) = STRAIGHT"
  shows "straightShape cs"
proof -
  have "isStraight (uniqueValuesOf cs) (countCards (sortCards cs)) \<noteq> None"
    using assms
    by (auto simp: recognizePattern_def Let_def mkPattern_def uniqueValuesOf_def
        split: if_splits option.splits)
  then show ?thesis using isStraight_iff [of cs] by blast
qed

lemma wellFormed_distinct:
  assumes "\<forall>c \<in> set cs. cvalue c = RANK_VALUES (rank c)"
  shows "distinct (cardValues cs) = distinct (map rank cs)"
proof -
  have inj: "inj RANK_VALUES"
  proof (rule injI)
    fix a b assume "RANK_VALUES a = RANK_VALUES b"
    then show "a = b" by (cases a; cases b) simp_all
  qed
  have "cardValues cs = map RANK_VALUES (map rank cs)"
    using assms by (simp add: cardValues_def)
  then show ?thesis by (simp add: distinct_map inj_on_def injD [OF inj] del: map_map)
qed

text \<open>
  Claim C9.  \<open>recognizePattern\<close> answers STRAIGHT exactly for the plays of at least five
  cards in which every value occurs once, all values are below 15 (no 2, no joker) and
  the values are consecutive; the pattern then carries the lowest value and the number of
  cards.  The recogniser reads the \<open>value\<close> field only; for cards whose value is the one
  of their rank, as \<open>createDeck\<close> and \<open>stringToCard\<close> build them, distinct values are
  distinct ranks.
\<close>

theorem C9_straight_recognition:
  "(ptype (recognizePattern cs) = STRAIGHT) = straightShape cs
   \<and> (straightShape cs \<longrightarrow>
        pvalue (recognizePattern cs) = Min (set (cardValues cs))
        \<and> plength (recognizePattern cs) = length cs)
   \<and> ((\<forall>c \<in> set cs. cvalue c = RANK_VALUES (rank c)) \<longrightarrow>
        distinct (cardValues cs) = distinct (map rank cs))"
  using recognizePattern_straight [of cs] recognizePattern_straight_only [of cs]
    wellFormed_distinct [of cs]
  by (auto simp: mkPattern_def)

theorem C9_straight_recognition_witness:
  "straightShape straight37
   \<and> recognizePattern straight37 = mkPattern STRAIGHT 3 5 straight37
   \<and> distinct (map rank straight37)
   \<and> \<not> straightShape run10to2
   \<and> ptype (recognizePattern run10to2) \<noteq> STRAIGHT"
proof -
  have 1: "straightShape straight37" by code_simp
  have 2: "\<not> straightShape run10to2" by code_simp
  have 3: "recognizePattern straight37 = mkPattern STRAIGHT 3 5 straight37" by code_simp
  have 4: "\<forall>c \<in> set straight37. cvalue c = RANK_VALUES (rank c)"
    by (simp add: straight37_def mkCard_def)
  have 5: "distinct (cardValues straight37)" by code_simp
  from 1 2 3 4 5 C9_straight_recognition [of straight37] C9_straight_recognition [of run10to2]
  show ?thesis by simp
qed

section \<open>Properties of the engine\<close>

text \<open>
  Claim C1 fails on the code.  Both entry points copy the state with a spread, which
  copies the reference in \<open>hands\<close>, and then write the new hand through that reference.
  On a fresh game, after seat 0 bids 3, the returned state holds the same hands object
  as the input state, and the input state's own seat 0 hand, 17 cards before the call,
  has 20.
\<close>

theorem C1_input_hands_overwritten:
  "length (getPlayerHand (fst game0) (snd game0) P0) = 17
   \<and> (case processBidAction (fst game0) (snd game0) bid3 0 of
        (st', Inr s') \<Rightarrow>
          hands s' = hands (snd game0) \<and> length (getPlayerHand st' (snd game0) P0) = 20
      | (st', Inl e) \<Rightarrow> False)"
  by code_simp

lemma finalizeLandlord_ok:
  "highestBidder s \<noteq> None \<Longrightarrow> \<not> isl (snd (finalizeLandlord st s))"
  by (auto simp: finalizeLandlord_def Let_def)

lemma bid_fails_iff: "isl (snd (processBidAction st s a now)) = bidViolation s a"
  by (auto simp: processBidAction_def bidViolation_def Let_def finalizeLandlord_ok
      split: option.splits)

lemma bid_error_store:
  "isl (snd (processBidAction st s a now)) \<Longrightarrow> fst (processBidAction st s a now) = st"
  by (auto simp: processBidAction_def Let_def finalizeLandlord_def split: option.splits if_splits)

lemma play_fails_iff: "isl (snd (processPlayAction st s a now)) = playViolation st s a"
  by (auto simp: processPlayAction_def playViolation_def Let_def split: option.splits)

lemma play_error_store:
  "isl (snd (processPlayAction st s a now)) \<Longrightarrow> fst (processPlayAction st s a now) = st"
  by (auto simp: processPlayAction_def Let_def split: option.splits if_splits)

text \<open>
  Claim C3.  \<open>processBidAction\<close> and \<open>processPlayAction\<close> throw exactly on the rule
  violations, and a call that throws leaves the store of hands as it was: every \<open>throw\<close>
  comes before the first write.  The other fields of the input state are never assigned
  to, the engine writes them on its spread copy only.
\<close>

theorem C3_atomic_on_error:
  "isl (snd (processBidAction st s ba now)) = bidViolation s ba
   \<and> isl (snd (processPlayAction st s pa now)) = playViolation st s pa
   \<and> (bidViolation s ba \<longrightarrow> fst (processBidAction st s ba now) = st)
   \<and> (playViolation st s pa \<longrightarrow> fst (processPlayAction st s pa now) = st)"
  using bid_fails_iff [of st s ba now] play_fails_iff [of st s pa now]
    bid_error_store [of st s ba now] play_error_store [of st s pa now]
  by simp

theorem C3_atomic_on_error_witness:
  "bidViolation (snd game0) bid0
   \<and> playViolation (fst game0) (snd game0) passPlay
   \<and> processBidAction (fst game0) (snd game0) bid0 0 = (fst game0, Inl InvalidBidAmount)
   \<and> processPlayAction (fst game0) (snd game0) passPlay 0 = (fst game0, Inl NotInPlayingPhase)"
proof -
  have 1: "bidViolation (snd game0) bid0" by code_simp
  have 2: "playViolation (fst game0) (snd game0) passPlay" by code_simp
  have 3: "snd (processBidAction (fst game0) (snd game0) bid0 0) = Inl InvalidBidAmount"
    by code_simp
  have 4: "snd (processPlayAction (fst game0) (snd game0) passPlay 0) = Inl NotInPlayingPhase"
    by code_simp
  from 1 2 3 4 C3_atomic_on_error [of "fst game0" "snd game0" bid0 0 passPlay]
  show ?thesis by (metis prod.collapse)
qed

text \<open>
  Claim C4.  In the playing phase with an active last pattern, a pass that brings
  \<open>consecutivePasses\<close> to 2 closes the trick: the call succeeds, the returned state has
  no last played cards and no last pattern, \<open>consecutivePasses\<close> is 0 and
  \<open>currentPlayer\<close> is the input's \<open>lastPlayer\<close>, whatever the next seat in rotation is.
\<close>

theorem C4_trick_closes:
  assumes "phase s = PLAYING" and "playType a \<noteq> PlayKind"
    and "lastPlayedPattern s \<noteq> None" and "consecutivePasses s = 1"
  shows "\<exists>s'. processPlayAction st s a now = (st, Inr s')
           \<and> lastPlayedCards s' = None \<and> lastPlayedPattern s' = None
           \<and> consecutivePasses s' = 0 \<and> currentPlayer s' = lastPlayer s"
  using assms by (simp add: processPlayAction_def Let_def)

theorem C4_trick_closes_witness:
  "\<exists>s'. processPlayAction (fst game0) onePassTrick passPlay 0 = (fst game0, Inr s')
        \<and> lastPlayedCards s' = None \<and> lastPlayedPattern s' = None
        \<and> consecutivePasses s' = 0 \<and> currentPlayer s' = Some P0"
proof -
  have 1: "phase onePassTrick = PLAYING" by (simp add: onePassTrick_def)
  have 2: "playType passPlay \<noteq> PlayKind" by (simp add: passPlay_def)
  have 3: "lastPlayedPattern onePassTrick \<noteq> None" by (simp add: onePassTrick_def)
  have 4: "consecutivePasses onePassTrick = 1" by (simp add: onePassTrick_def)
  have 5: "lastPlayer onePassTrick = Some P0" by (simp add: onePassTrick_def)
  from C4_trick_closes [OF 1 2 3 4, of "fst game0" 0] 5 show ?thesis by simp
qed

lemma pile_game0:
  "phase (snd (afterBid3 game0)) = PLAYING
   \<and> landlordCards (snd (afterBid3 game0))
       = [mkCard DIAMOND TWO, mkCard JOKER SMALL_JOKER, mkCard JOKER BIG_JOKER]"
  by code_simp

lemma pile_game1:
  "phase (snd (afterBid3 game1)) = PLAYING
   \<and> landlordCards (snd (afterBid3 game1))
       = [mkCard DIAMOND ACE, mkCard JOKER SMALL_JOKER, mkCard JOKER BIG_JOKER]"
  by code_simp

lemma projections_differ:
  "getPublicGameState (fst (afterBid3 game0)) (snd (afterBid3 game0)) P1
   \<noteq> getPublicGameState (fst (afterBid3 game1)) (snd (afterBid3 game1)) P1"
proof
  assume "getPublicGameState (fst (afterBid3 game0)) (snd (afterBid3 game0)) P1
          = getPublicGameState (fst (afterBid3 game1)) (snd (afterBid3 game1)) P1"
  then have "pub_landlordCards
               (getPublicGameState (fst (afterBid3 game0)) (snd (afterBid3 game0)) P1)
             = pub_landlordCards
                 (getPublicGameState (fst (afterBid3 game1)) (snd (afterBid3 game1)) P1)"
    by simp
  then show False
    using pile_game0 pile_game1
    by (simp add: getPublicGameState_def cardsToStrings_def cardToString_def mkCard_def)
qed

text \<open>
  Claim C6, as stated, fails in the playing phase: the projection shows the three
  landlord cards, which are then part of the landlord's hand.  The two sample games after
  seat 0's bid of 3 agree on seat 1's hand, on all hand counts and on every field of the
  state but \<open>landlordCards\<close>; they differ in one card of seat 0 and one of seat 2 (the
  diamond 2 and the diamond ace have changed places), the landlord cards of each are in
  seat 0's hand, and seat 1's projections differ.
\<close>

theorem C6_landlord_pile_shown:
  "phase (snd (afterBid3 game0)) = PLAYING
   \<and> snd (afterBid3 game1)
       = (snd (afterBid3 game0))\<lparr>landlordCards := landlordCards (snd (afterBid3 game1))\<rparr>
   \<and> getPlayerHand (fst (afterBid3 game0)) (snd (afterBid3 game0)) P1
       = getPlayerHand (fst (afterBid3 game1)) (snd (afterBid3 game1)) P1
   \<and> length (getPlayerHand (fst (afterBid3 game0)) (snd (afterBid3 game0)) P0)
       = length (getPlayerHand (fst (afterBid3 game1)) (snd (afterBid3 game1)) P0)
   \<and> length (getPlayerHand (fst (afterBid3 game0)) (snd (afterBid3 game0)) P2)
       = length (getPlayerHand (fst (afterBid3 game1)) (snd (afterBid3 game1)) P2)
   \<and> set (landlordCards (snd (afterBid3 game0)))
       \<subseteq> set (getPlayerHand (fst (afterBid3 game0)) (snd (afterBid3 game0)) P0)
   \<and> set (landlordCards (snd (afterBid3 game1)))
       \<subseteq> set (getPlayerHand (fst (afterBid3 game1)) (snd (afterBid3 game1)) P0)
   \<and> getPublicGameState (fst (afterBid3 game0)) (snd (afterBid3 game0)) P1
       \<noteq> getPublicGameState (fst (afterBid3 game1)) (snd (afterBid3 game1)) P1"
proof -
  have 1: "snd (afterBid3 game1)
           = (snd (afterBid3 game0))\<lparr>landlordCards := landlordCards (snd (afterBid3 game1))\<rparr>"
    by code_simp
  have 2: "getPlayerHand (fst (afterBid3 game0)) (snd (afterBid3 game0)) P1
           = getPlayerHand (fst (afterBid3 game1)) (snd (afterBid3 game1)) P1"
    by code_simp
  have 3: "length (getPlayerHand (fst (afterBid3 game0)) (snd (afterBid3 game0)) P0)
           = length (getPlayerHand (fst (afterBid3 game1)) (snd (afterBid3 game1)) P0)"
    by code_simp
  have 4: "length (getPlayerHand (fst (afterBid3 game0)) (snd (afterBid3 game0)) P2)
           = length (getPlayerHand (fst (afterBid3 game1)) (snd (afterBid3 game1)) P2)"
    by code_simp
  have 5: "set (landlordCards (snd (afterBid3 game0)))
           \<subseteq> set (getPlayerHand (fst (afterBid3 game0)) (snd (afterBid3 game0)) P0)"
    by code_simp
  have 6: "set (landlordCards (snd (afterBid3 game1)))
           \<subseteq> set (getPlayerHand (fst (afterBid3 game1)) (snd (afterBid3 game1)) P0)"
    by code_simp
  from pile_game0 1 2 3 4 5 6 projections_differ show ?thesis by blast
qed

lemma projection_other_hands:
  assumes "getPlayerHand st1 s forSeat
           = getPlayerHand st2 (s\<lparr>hands := r, landlordCards := lc\<rparr>) forSeat"
    and "length (player0 (st1 (hands s))) = length (player0 (st2 r))"
    and "length (player1 (st1 (hands s))) = length (player1 (st2 r))"
    and "length (player2 (st1 (hands s))) = length (player2 (st2 r))"
    and "phase s = PLAYING \<longrightarrow> lc = landlordCards s"
  shows "getPublicGameState st1 s forSeat
         = getPublicGameState st2 (s\<lparr>hands := r, landlordCards := lc\<rparr>) forSeat"
  using assms by (cases forSeat) (auto simp: getPublicGameState_def)

text \<open>
  Claim C6, amended.  The projection for a seat depends on the cards the seats hold only
  through that seat's own hand, the three hand counts and, in the playing phase, the
  three landlord cards: two states that agree on every field other than the hands and the
  landlord pile, on the landlord pile if the phase is Playing, on the hand of \<open>forSeat\<close>
  and on the number of cards of every seat have the same projection for \<open>forSeat\<close>.
\<close>

theorem C6_projection_hides_other_hands:
  assumes "s2 = s1\<lparr>hands := hands s2, landlordCards := landlordCards s2\<rparr>"
    and "phase s1 = PLAYING \<longrightarrow> landlordCards s2 = landlordCards s1"
    and "getPlayerHand st1 s1 forSeat = getPlayerHand st2 s2 forSeat"
    and "length (player0 (st1 (hands s1))) = length (player0 (st2 (hands s2)))"
    and "length (player1 (st1 (hands s1))) = length (player1 (st2 (hands s2)))"
    and "length (player2 (st1 (hands s1))) = length (player2 (st2 (hands s2)))"
  shows "getPublicGameState st1 s1 forSeat = getPublicGameState st2 s2 forSeat"
proof -
  let ?s = "s1\<lparr>hands := hands s2, landlordCards := landlordCards s2\<rparr>"
  have "getPlayerHand st1 s1 forSeat = getPlayerHand st2 ?s forSeat"
    using assms(1,3) by metis
  then have "getPublicGameState st1 s1 forSeat = getPublicGameState st2 ?s forSeat"
    using assms(4-6) assms(2) by (rule projection_other_hands)
  then show ?thesis using assms(1) by metis
qed

theorem C6_projection_hides_other_hands_witness:
  "getPlayerHand (fst game0) (snd game0) P2 \<noteq> getPlayerHand (fst game1) (snd game1) P2
   \<and> landlordCards (snd game0) \<noteq> landlordCards (snd game1)
   \<and> getPublicGameState (fst game0) (snd game0) P1
     = getPublicGameState (fst game1) (snd game1) P1"
proof -
  have 1: "snd game1
           = (snd game0)\<lparr>hands := hands (snd game1), landlordCards := landlordCards (snd game1)\<rparr>"
    by code_simp
  have 2: "phase (snd game0) = PLAYING \<longrightarrow> landlordCards (snd game1) = landlordCards (snd game0)"
    by code_simp
  have 3: "getPlayerHand (fst game0) (snd game0) P1 = getPlayerHand (fst game1) (snd game1) P1"
    by code_simp
  have 4: "length (player0 (fst game0 (hands (snd game0))))
           = length (player0 (fst game1 (hands (snd game1))))" by code_simp
  have 5: "length (player1 (fst game0 (hands (snd game0))))
           = length (player1 (fst game1 (hands (snd game1))))" by code_simp
  have 6: "length (player2 (fst game0 (hands (snd game0))))
           = length (player2 (fst game1 (hands (snd game1))))" by code_simp
  have 7: "getPlayerHand (fst game0) (snd game0) P2 \<noteq> getPlayerHand (fst game1) (snd game1) P2"
    by code_simp
  have 8: "landlordCards (snd game0) \<noteq> landlordCards (snd game1)"
    by code_simp
  from 7 8 C6_projection_hides_other_hands [OF 1 2 3 4 5 6] show ?thesis by simp
qed

lemma sorted_sortCards: "sorted (map cvalue (sortCards cs))"
  by (simp add: sortCards_def)

lemma mset_sortCards: "mset (sortCards cs) = mset cs"
  by (simp add: sortCards_def)

text \<open>
  Claim C8.  In the bidding phase, a pass that brings \<open>passCount\<close> to 3 while no bid was
  ever recorded does not deal again: the call succeeds, seat 0 is landlord and highest
  bidder at a bid of 1, the phase is Playing, seat 0 is the current player, and the three
  landlord cards are merged into seat 0's hand and the hand is sorted again: the new hand
  holds exactly the cards of the old hand and of the pile, it is ascending by value, and
  it is \<open>sortCards\<close> of the old hand followed by the pile.  The other two hands and the
  landlord pile are as before.
\<close>

theorem C8_all_pass_fallback:
  assumes "phase s = BIDDING" and "bidType a \<noteq> BidKind"
    and "passCount s = 2" and "highestBidder s = None"
  shows "\<exists>st' s'. processBidAction st s a now = (st', Inr s')
           \<and> landlordPosition s' = Some P0 \<and> highestBidder s' = Some P0 \<and> highestBid s' = 1
           \<and> phase s' = PLAYING \<and> currentPlayer s' = Some P0
           \<and> getPlayerHand st' s' P0 = sortCards (getPlayerHand st s P0 @ landlordCards s)
           \<and> mset (getPlayerHand st' s' P0)
               = mset (getPlayerHand st s P0) + mset (landlordCards s)
           \<and> sorted (map cvalue (getPlayerHand st' s' P0))
           \<and> getPlayerHand st' s' P1 = getPlayerHand st s P1
           \<and> getPlayerHand st' s' P2 = getPlayerHand st s P2
           \<and> landlordCards s' = landlordCards s"
  using assms
  by (simp add: processBidAction_def finalizeLandlord_def Let_def sorted_sortCards
      mset_sortCards)

theorem C8_all_pass_fallback_witness:
  "\<exists>st' s'. processBidAction (fst game0) twoPasses passBid 0 = (st', Inr s')
        \<and> landlordPosition s' = Some P0 \<and> highestBid s' = 1
        \<and> phase s' = PLAYING \<and> currentPlayer s' = Some P0
        \<and> length (getPlayerHand st' s' P0) = 20
        \<and> sorted (map cvalue (getPlayerHand st' s' P0))
        \<and> mset (getPlayerHand st' s' P0)
            = mset (getPlayerHand (fst game0) twoPasses P0) + mset (landlordCards twoPasses)"
proof -
  have 1: "phase twoPasses = BIDDING" by code_simp
  have 2: "bidType passBid \<noteq> BidKind" by (simp add: passBid_def)
  have 3: "passCount twoPasses = 2" by (simp add: twoPasses_def)
  have 4: "highestBidder twoPasses = None" by code_simp
  have 5: "length (sortCards (getPlayerHand (fst game0) twoPasses P0 @ landlordCards twoPasses))
           = 20"
    by code_simp
  from C8_all_pass_fallback [OF 1 2 3 4, of "fst game0" 0]
  obtain st' s' where r: "processBidAction (fst game0) twoPasses passBid 0 = (st', Inr s')"
    and f: "landlordPosition s' = Some P0" "highestBid s' = 1" "phase s' = PLAYING"
      "currentPlayer s' = Some P0"
    and h: "getPlayerHand st' s' P0
            = sortCards (getPlayerHand (fst game0) twoPasses P0 @ landlordCards twoPasses)"
    and m: "mset (getPlayerHand st' s' P0)
            = mset (getPlayerHand (fst game0) twoPasses P0) + mset (landlordCards twoPasses)"
    and o: "sorted (map cvalue (getPlayerHand st' s' P0))"
    by blast
  from h 5 have "length (getPlayerHand st' s' P0) = 20" by simp
  with r f m o show ?thesis by blast
qed

end
